theory Spec2Isabelle
  imports Complex_Main
begin

section \<open>Python values used by the prediction service\<close>

text \<open>
  The service of \<^verbatim>\<open>main.py\<close> works on Python floats. A float is modelled by the number
  it denotes: a finite float is a rational, and the three special floats are kept apart
  because comparisons treat them differently (every comparison with \<open>NaN\<close> is false).
  All literals the source compares with (\<open>0.0\<close>, \<open>2.00\<close>, \<open>2.50\<close>, \<open>3.00\<close>, \<open>3.50\<close>,
  \<open>4.0\<close>) are exact binary floats, so a comparison of floats is the comparison of the
  numbers they denote.
\<close>

datatype pyfloat = Fin rat | PInf | NInf | NaN

fun fl_lt :: "pyfloat \<Rightarrow> pyfloat \<Rightarrow> bool" where
  "fl_lt NaN _ = False"
| "fl_lt _ NaN = False"
| "fl_lt (Fin x) (Fin y) = (x < y)"
| "fl_lt (Fin _) PInf = True"
| "fl_lt (Fin _) NInf = False"
| "fl_lt PInf _ = False"
| "fl_lt NInf NInf = False"
| "fl_lt NInf _ = True"

definition fl_gt :: "pyfloat \<Rightarrow> pyfloat \<Rightarrow> bool" where
  "fl_gt a b = fl_lt b a"

fun fl_ge :: "pyfloat \<Rightarrow> pyfloat \<Rightarrow> bool" where
  "fl_ge NaN _ = False"
| "fl_ge _ NaN = False"
| "fl_ge (Fin x) (Fin y) = (x \<ge> y)"
| "fl_ge (Fin _) PInf = False"
| "fl_ge (Fin _) NInf = True"
| "fl_ge PInf _ = True"
| "fl_ge NInf NInf = True"
| "fl_ge NInf _ = False"

text \<open>
  The builtins \<^verbatim>\<open>min(a, b)\<close> and \<^verbatim>\<open>max(a, b)\<close> keep the first argument unless the
  second compares strictly smaller (larger).
\<close>

definition py_min :: "pyfloat \<Rightarrow> pyfloat \<Rightarrow> pyfloat" where
  "py_min a b = (if fl_lt b a then b else a)"

definition py_max :: "pyfloat \<Rightarrow> pyfloat \<Rightarrow> pyfloat" where
  "py_max a b = (if fl_gt b a then b else a)"

text \<open>
  \<^verbatim>\<open>round(x, 2)\<close> on a float rounds the exact value of \<open>x\<close> to the nearest multiple of
  \<open>0.01\<close>, ties to the even multiple, and leaves infinities and \<open>NaN\<close> as they are. The
  float it returns is the one nearest to that decimal; the model keeps the decimal.
  Since every literal of the source is a multiple of \<open>0.01\<close> and an exact float, the
  comparisons that follow come out the same on the decimal and on its nearest float.
\<close>

definition round_half_even :: "rat \<Rightarrow> int" where
  "round_half_even x =
     (let f = \<lfloor>x\<rfloor>; d = x - of_int f
      in if d < 1 / 2 then f
         else if 1 / 2 < d then f + 1
         else if even f then f else f + 1)"

fun py_round2 :: "pyfloat \<Rightarrow> pyfloat" where
  "py_round2 (Fin x) = Fin (of_int (round_half_even (x * 100)) / 100)"
| "py_round2 PInf = PInf"
| "py_round2 NInf = NInf"
| "py_round2 NaN = NaN"

section \<open>The interpretation of a score\<close>

text \<open>\<^verbatim>\<open>interpret_cgpa\<close>: an \<^verbatim>\<open>if\<close>/\<^verbatim>\<open>elif\<close> chain, returning the pair (range, message).\<close>

definition interpret_cgpa :: "pyfloat \<Rightarrow> string \<times> string" where
  "interpret_cgpa cgpa =
     (if fl_ge cgpa (Fin (7 / 2)) then
        (''Excellent (3.50 - 4.00)'',
         ''Student is performing excellently! Keep up the great work.'')
      else if fl_ge cgpa (Fin 3) then
        (''Good (3.00 - 3.49)'', ''Student is performing well academically.'')
      else if fl_ge cgpa (Fin (5 / 2)) then
        (''Average (2.50 - 2.99)'',
         ''Student is performing at an average level. Some improvement possible.'')
      else if fl_ge cgpa (Fin 2) then
        (''Below Average (2.00 - 2.49)'',
         ''Student may need academic support and intervention.'')
      else
        (''Poor (0.00 - 1.99)'',
         ''Student requires immediate academic and mental health support.''))"

text \<open>
  The post-processing lines of \<^verbatim>\<open>predict_cgpa\<close>: round to two decimals, clamp with
  \<^verbatim>\<open>max(0.0, min(4.0, x))\<close>, interpret, and build the \<^verbatim>\<open>PredictionOutput\<close>.
\<close>

record PredictionOutput =
  predicted_cgpa :: pyfloat
  cgpa_range :: string
  message :: string

definition postprocess :: "pyfloat \<Rightarrow> PredictionOutput" where
  "postprocess score =
     (let predicted = py_round2 score;
          predicted = py_max (Fin 0) (py_min (Fin 4) predicted);
          (rng, msg) = interpret_cgpa predicted
      in \<lparr>predicted_cgpa = predicted, cgpa_range = rng, message = msg\<rparr>)"

section \<open>Exceptions and dynamically typed cell values\<close>

text \<open>
  An ordinary Python exception carries the text that \<^verbatim>\<open>str(e)\<close> yields. What the
  handler raises itself is FastAPI's \<^verbatim>\<open>HTTPException(status_code, detail)\<close>; the
  libraries below (pandas, scikit-learn) raise ordinary exceptions only.
\<close>

datatype pyexc =
    ValueError string
  | KeyError string
  | IndexError string
  | AttributeError string
  | OtherError string

fun exc_str :: "pyexc \<Rightarrow> string" where
  "exc_str (ValueError m) = m"
| "exc_str (KeyError m) = m"
| "exc_str (IndexError m) = m"
| "exc_str (AttributeError m) = m"
| "exc_str (OtherError m) = m"

datatype exn = HTTPException nat string | Exc pyexc

datatype pyval = PyInt int | PyStr string

definition digit_char :: "nat \<Rightarrow> char" where
  "digit_char d = ''0123456789'' ! d"

fun nat_str :: "nat \<Rightarrow> string" where
  "nat_str n = (if n < 10 then [digit_char n] else nat_str (n div 10) @ [digit_char (n mod 10)])"

declare nat_str.simps [simp del]

definition int_str :: "int \<Rightarrow> string" where
  "int_str i = (if i < 0 then CHR ''-'' # nat_str (nat (- i)) else nat_str (nat i))"

text \<open>\<^verbatim>\<open>str(v)\<close>, which is also what an f-string field \<^verbatim>\<open>{v}\<close> inserts.\<close>

fun py_str :: "pyval \<Rightarrow> string" where
  "py_str (PyInt i) = int_str i"
| "py_str (PyStr s) = s"

definition quoted :: "string \<Rightarrow> string" where
  "quoted s = CHR 0x27 # s @ [CHR 0x27]"

definition none_has_no_attribute :: "string \<Rightarrow> pyexc" where
  "none_has_no_attribute a =
     AttributeError (quoted ''NoneType'' @ '' object has no attribute '' @ quoted a)"

section \<open>The request schema\<close>

text \<open>
  \<^verbatim>\<open>class StudentInput(BaseModel)\<close>: nine fields. A value of the record is a request
  body whose fields already have their JSON types (an integer and eight strings);
  pydantic's coercion of other JSON types is outside the model. A character of a string
  stands for one character of the Python \<^verbatim>\<open>str\<close>, so \<open>length\<close> is \<^verbatim>\<open>len\<close>.
\<close>

record StudentInput =
  age :: int
  gender :: string
  course :: string
  year :: string
  marital_status :: string
  depression :: string
  anxiety :: string
  panic_attack :: string
  treatment :: string

datatype violation = BelowMinimum | AboveMaximum | TooShort | TooLong | NotALiteral

definition check_ge :: "string \<Rightarrow> int \<Rightarrow> int \<Rightarrow> (string \<times> violation) list" where
  "check_ge field bound v = (if bound \<le> v then [] else [(field, BelowMinimum)])"

definition check_le :: "string \<Rightarrow> int \<Rightarrow> int \<Rightarrow> (string \<times> violation) list" where
  "check_le field bound v = (if v \<le> bound then [] else [(field, AboveMaximum)])"

definition check_min_length :: "string \<Rightarrow> nat \<Rightarrow> string \<Rightarrow> (string \<times> violation) list" where
  "check_min_length field bound v = (if bound \<le> length v then [] else [(field, TooShort)])"

definition check_max_length :: "string \<Rightarrow> nat \<Rightarrow> string \<Rightarrow> (string \<times> violation) list" where
  "check_max_length field bound v = (if length v \<le> bound then [] else [(field, TooLong)])"

definition check_literal :: "string \<Rightarrow> string list \<Rightarrow> string \<Rightarrow> (string \<times> violation) list" where
  "check_literal field allowed v = (if List.member allowed v then [] else [(field, NotALiteral)])"

text \<open>The declared constraints, field by field in declaration order; all violations are collected.\<close>

definition field_violations :: "StudentInput \<Rightarrow> (string \<times> violation) list" where
  "field_violations b =
     check_ge ''age'' 18 (age b) @ check_le ''age'' 30 (age b) @
     check_literal ''gender'' [''Male'', ''Female''] (gender b) @
     check_min_length ''course'' 2 (course b) @ check_max_length ''course'' 100 (course b) @
     check_literal ''year'' [''year 1'', ''year 2'', ''year 3'', ''year 4''] (year b) @
     check_literal ''marital_status'' [''Yes'', ''No''] (marital_status b) @
     check_literal ''depression'' [''Yes'', ''No''] (depression b) @
     check_literal ''anxiety'' [''Yes'', ''No''] (anxiety b) @
     check_literal ''panic_attack'' [''Yes'', ''No''] (panic_attack b) @
     check_literal ''treatment'' [''Yes'', ''No''] (treatment b)"

definition validate_StudentInput :: "StudentInput \<Rightarrow> (string \<times> violation) list + StudentInput" where
  "validate_StudentInput b =
     (let errs = field_violations b in if errs = [] then Inr b else Inl errs)"

section \<open>The artifacts loaded at startup\<close>

text \<open>
  A one-row \<^verbatim>\<open>DataFrame\<close> is the list of its columns with the row's cell in each. A
  fitted \<^verbatim>\<open>LabelEncoder\<close> is its list \<^verbatim>\<open>classes_\<close>; the scaler and the model are
  opaque functions that may raise. Each module global holds what \<^verbatim>\<open>joblib.load\<close>
  returned: an object of the kind the handler expects, or \<^verbatim>\<open>None\<close>.
\<close>

type_synonym frame = "(string \<times> pyval) list"

type_synonym label_encoder = "string list"

record artifacts =
  model :: "(pyfloat list \<Rightarrow> pyexc + pyfloat list) option"
  scaler :: "(frame \<Rightarrow> pyexc + pyfloat list) option"
  label_encoders :: "(string \<times> label_encoder) list option"
  feature_names :: "string list option"

text \<open>
  The files read by the four \<^verbatim>\<open>joblib.load\<close> calls: each load either raises or
  returns the pickled object.
\<close>

record pickles =
  best_model_pkl :: "pyexc + (pyfloat list \<Rightarrow> pyexc + pyfloat list) option"
  scaler_pkl :: "pyexc + (frame \<Rightarrow> pyexc + pyfloat list) option"
  label_encoders_pkl :: "pyexc + (string \<times> label_encoder) list option"
  feature_names_pkl :: "pyexc + string list option"

text \<open>
  The module-level \<^verbatim>\<open>try\<close> block: the loads run in order, and the first exception is
  printed and re-raised, which ends the import of the module before any route exists.
\<close>

definition startup :: "pickles \<Rightarrow> pyexc + artifacts" where
  "startup fs =
     (case best_model_pkl fs of Inl e \<Rightarrow> Inl e | Inr m \<Rightarrow>
     (case scaler_pkl fs of Inl e \<Rightarrow> Inl e | Inr sc \<Rightarrow>
     (case label_encoders_pkl fs of Inl e \<Rightarrow> Inl e | Inr les \<Rightarrow>
     (case feature_names_pkl fs of Inl e \<Rightarrow> Inl e | Inr names \<Rightarrow>
        Inr \<lparr>model = m, scaler = sc, label_encoders = les, feature_names = names\<rparr>))))"

section \<open>The health route\<close>

record health_report =
  status :: string
  model_loaded :: bool
  scaler_loaded :: bool
  encoders_loaded :: bool

definition health_check :: "artifacts \<Rightarrow> health_report" where
  "health_check g =
     \<lparr>status = ''healthy'',
      model_loaded = (model g \<noteq> None),
      scaler_loaded = (scaler g \<noteq> None),
      encoders_loaded = (label_encoders g \<noteq> None)\<rparr>"

section \<open>The prediction handler\<close>

text \<open>The dictionary literal \<^verbatim>\<open>input_data\<close>, in the order it is written.\<close>

definition input_data :: "StudentInput \<Rightarrow> frame" where
  "input_data student =
     [(''Age'', PyInt (age student)),
      (''Choose your gender'', PyStr (gender student)),
      (''What is your course?'', PyStr (course student)),
      (''Your current year of Study'', PyStr (year student)),
      (''Marital status'', PyStr (marital_status student)),
      (''Do you have Depression?'', PyStr (depression student)),
      (''Do you have Anxiety?'', PyStr (anxiety student)),
      (''Do you have Panic attack?'', PyStr (panic_attack student)),
      (''Did you seek any specialist for a treatment?'', PyStr (treatment student))]"

text \<open>
  \<^verbatim>\<open>LabelEncoder.transform([v])[0]\<close>: the position of \<open>v\<close> in \<^verbatim>\<open>classes_\<close>, or a
  \<^verbatim>\<open>ValueError\<close> for a label the encoder was not fitted on. The handler discards the
  text of that error.
\<close>

fun index_of :: "string list \<Rightarrow> string \<Rightarrow> nat" where
  "index_of [] v = 0"
| "index_of (c # cs) v = (if c = v then 0 else Suc (index_of cs v))"

definition transform :: "label_encoder \<Rightarrow> string \<Rightarrow> pyexc + int" where
  "transform classes v =
     (if List.member classes v then Inr (int (index_of classes v))
      else Inl (ValueError (''y contains previously unseen labels: '' @ v)))"

text \<open>\<^verbatim>\<open>input_df[col] = v\<close> for a column the frame has: the cell is replaced in place.\<close>

definition set_column :: "string \<Rightarrow> pyval \<Rightarrow> frame \<Rightarrow> frame" where
  "set_column col v df = map (\<lambda>(c, x). if c = col then (c, v) else (c, x)) df"

definition unseen_detail :: "string \<Rightarrow> pyval \<Rightarrow> string" where
  "unseen_detail col raw =
     ''Invalid value for '' @ col @ '': '' @ py_str raw @
     ''. Must be one of the categories in training data.''"

text \<open>
  The loop \<^verbatim>\<open>for col in label_encoders.keys()\<close>, over the keys still to visit. The
  lookups \<^verbatim>\<open>label_encoders[col]\<close> and \<^verbatim>\<open>input_data[col]\<close> raise \<^verbatim>\<open>KeyError\<close> on a
  missing key; the inner \<^verbatim>\<open>except ValueError\<close> turns the encoder's rejection into the
  400 response and lets every other exception pass.
\<close>

fun encode_columns ::
  "(string \<times> label_encoder) list \<Rightarrow> string list \<Rightarrow> frame \<Rightarrow> frame \<Rightarrow> exn + frame" where
  "encode_columns les [] data df = Inr df"
| "encode_columns les (col # cols) data df =
     (if List.member (map fst df) col then
        (case map_of les col of
           None \<Rightarrow> Inl (Exc (KeyError (quoted col)))
         | Some enc \<Rightarrow>
             (case map_of data col of
                None \<Rightarrow> Inl (Exc (KeyError (quoted col)))
              | Some raw \<Rightarrow>
                  (case transform enc (py_str raw) of
                     Inl (ValueError m) \<Rightarrow> Inl (HTTPException 400 (unseen_detail col raw))
                   | Inl e \<Rightarrow> Inl (Exc e)
                   | Inr code \<Rightarrow> encode_columns les cols data (set_column col (PyInt code) df))))
      else encode_columns les cols data df)"

text \<open>
  \<^verbatim>\<open>input_df[feature_names]\<close>: the columns in the order of the list, or a
  \<^verbatim>\<open>KeyError\<close> when a name is not a column. pandas words that error in two ways: when
  none of the requested names is a column the message is
  \<^verbatim>\<open>None of [Index([...], dtype='object')] are in the [columns]\<close>, otherwise it is
  \<^verbatim>\<open>[...] not in index\<close> with the missing names, each once, in the order they were
  asked for. \<^verbatim>\<open>str\<close> of a \<^verbatim>\<open>KeyError\<close> is the \<^verbatim>\<open>repr\<close> of its message, which puts
  double quotes around a message that has single quotes in it. (Names are rendered as
  pandas 2 renders a short list of names without quote characters.)
\<close>

fun list_repr_items :: "string list \<Rightarrow> string" where
  "list_repr_items [] = []"
| "list_repr_items [x] = quoted x"
| "list_repr_items (x # y # zs) = quoted x @ '', '' @ list_repr_items (y # zs)"

definition first_occurrences :: "string list \<Rightarrow> string list" where
  "first_occurrences xs = rev (remdups (rev xs))"

definition not_in_index :: "string list \<Rightarrow> string" where
  "not_in_index missing =
     CHR 0x22 # ''['' @ list_repr_items (first_occurrences missing) @ ''] not in index'' @
     [CHR 0x22]"

definition none_in_columns :: "string list \<Rightarrow> string" where
  "none_in_columns names =
     CHR 0x22 # ''None of [Index(['' @ list_repr_items names @ ''], dtype='' @
     quoted ''object'' @ '')] are in the [columns]'' @ [CHR 0x22]"

definition select_columns :: "string list option \<Rightarrow> frame \<Rightarrow> pyexc + frame" where
  "select_columns names df =
     (case names of
        None \<Rightarrow> Inl (KeyError ''None'')
      | Some ns \<Rightarrow>
          (let missing = filter (\<lambda>n. map_of df n = None) ns
           in if missing = []
              then Inr (List.map_filter (\<lambda>n. map_option (Pair n) (map_of df n)) ns)
              else if length missing = length ns
              then Inl (KeyError (none_in_columns ns))
              else Inl (KeyError (not_in_index missing))))"

text \<open>\<^verbatim>\<open>scaler.transform(input_df)\<close> and \<^verbatim>\<open>model.predict(input_scaled)\<close>.\<close>

definition scaler_transform ::
  "(frame \<Rightarrow> pyexc + pyfloat list) option \<Rightarrow> frame \<Rightarrow> pyexc + pyfloat list" where
  "scaler_transform sc df =
     (case sc of None \<Rightarrow> Inl (none_has_no_attribute ''transform'') | Some f \<Rightarrow> f df)"

definition model_predict ::
  "(pyfloat list \<Rightarrow> pyexc + pyfloat list) option \<Rightarrow> pyfloat list \<Rightarrow> pyexc + pyfloat list" where
  "model_predict m x =
     (case m of None \<Rightarrow> Inl (none_has_no_attribute ''predict'') | Some f \<Rightarrow> f x)"

text \<open>\<^verbatim>\<open>float(prediction[0])\<close>.\<close>

definition first_prediction :: "pyfloat list \<Rightarrow> pyexc + pyfloat" where
  "first_prediction prediction =
     (case prediction of
        [] \<Rightarrow> Inl (IndexError ''index 0 is out of bounds for axis 0 with size 0'')
      | p # _ \<Rightarrow> Inr p)"

text \<open>
  The body of the \<^verbatim>\<open>try\<close> block up to the score: build the frame, encode, reorder,
  scale, predict.
\<close>

definition encoded_frame :: "artifacts \<Rightarrow> StudentInput \<Rightarrow> exn + frame" where
  "encoded_frame g student =
     (let data = input_data student; input_df = data
      in case label_encoders g of
           None \<Rightarrow> Inl (Exc (none_has_no_attribute ''keys''))
         | Some les \<Rightarrow> encode_columns les (map fst les) data input_df)"

definition lift_exc :: "pyexc + 'a \<Rightarrow> exn + 'a" where
  "lift_exc r = (case r of Inl e \<Rightarrow> Inl (Exc e) | Inr v \<Rightarrow> Inr v)"

definition model_score :: "artifacts \<Rightarrow> StudentInput \<Rightarrow> exn + pyfloat" where
  "model_score g student =
     (case encoded_frame g student of Inl e \<Rightarrow> Inl e | Inr input_df \<Rightarrow>
     (case lift_exc (select_columns (feature_names g) input_df) of Inl e \<Rightarrow> Inl e | Inr input_df \<Rightarrow>
     (case lift_exc (scaler_transform (scaler g) input_df) of Inl e \<Rightarrow> Inl e | Inr input_scaled \<Rightarrow>
     (case lift_exc (model_predict (model g) input_scaled) of Inl e \<Rightarrow> Inl e | Inr prediction \<Rightarrow>
        lift_exc (first_prediction prediction)))))"

definition predict_body :: "artifacts \<Rightarrow> StudentInput \<Rightarrow> exn + PredictionOutput" where
  "predict_body g student =
     (case model_score g student of Inl e \<Rightarrow> Inl e | Inr score \<Rightarrow> Inr (postprocess score))"

text \<open>
  The two \<^verbatim>\<open>except\<close> clauses around the body: an \<^verbatim>\<open>HTTPException\<close> is raised again as
  it is, any other exception becomes the 500 response.
\<close>

definition predict_cgpa :: "artifacts \<Rightarrow> StudentInput \<Rightarrow> exn + PredictionOutput" where
  "predict_cgpa g student =
     (case predict_body g student of
        Inl (HTTPException code detail) \<Rightarrow> Inl (HTTPException code detail)
      | Inl (Exc e) \<Rightarrow> Inl (HTTPException 500 (''Prediction error: '' @ exc_str e))
      | Inr out \<Rightarrow> Inr out)"

section \<open>The HTTP surface\<close>

text \<open>
  FastAPI validates the body against \<^verbatim>\<open>StudentInput\<close> before it calls the handler and
  answers 422 itself when validation fails; an \<^verbatim>\<open>HTTPException\<close> from a handler becomes
  a response with that status and detail. The process state is the four module globals;
  here the scaler and the model are functions, so every route returns the state as it
  found it. The section on the artifacts as objects drops that simplification.
\<close>

datatype request = GetRoot | GetHealth | PostPredict StudentInput

datatype response =
    Welcome string string
  | Health health_report
  | Prediction PredictionOutput
  | Unprocessable "(string \<times> violation) list"
  | Failure nat string

definition root :: response where
  "root = Welcome ''Welcome to Student Mental Health CGPA Prediction API'' ''1.0.0''"

definition post_predict :: "artifacts \<Rightarrow> StudentInput \<Rightarrow> response" where
  "post_predict g body =
     (case validate_StudentInput body of
        Inl errs \<Rightarrow> Unprocessable errs
      | Inr student \<Rightarrow>
          (case predict_cgpa g student of
             Inr out \<Rightarrow> Prediction out
           | Inl (HTTPException code detail) \<Rightarrow> Failure code detail
           | Inl (Exc e) \<Rightarrow> Failure 500 ''Internal Server Error''))"

fun serve :: "artifacts \<Rightarrow> request \<Rightarrow> response \<times> artifacts" where
  "serve g GetRoot = (root, g)"
| "serve g GetHealth = (Health (health_check g), g)"
| "serve g (PostPredict body) = (post_predict g body, g)"

fun serve_all :: "artifacts \<Rightarrow> request list \<Rightarrow> response list \<times> artifacts" where
  "serve_all g [] = ([], g)"
| "serve_all g (r # rs) =
     (let (resp, g1) = serve g r; (resps, g2) = serve_all g1 rs in (resp # resps, g2))"

text \<open>The process: it serves only after the module has been imported without an exception.\<close>

definition run :: "pickles \<Rightarrow> request list \<Rightarrow> pyexc + response list" where
  "run fs rs = (case startup fs of Inl e \<Rightarrow> Inl e | Inr g \<Rightarrow> Inr (fst (serve_all g rs)))"

section \<open>The artifacts as objects\<close>

















section \<open>A sample deployment\<close>

definition sample_encoders :: "(string \<times> label_encoder) list" where
  "sample_encoders =
     [(''Choose your gender'', [''Female'', ''Male'']),
      (''What is your course?'', [''BCS'', ''Engineering'', ''Law'']),
      (''Your current year of Study'', [''year 1'', ''year 2'', ''year 3'', ''year 4''])]"

definition sample_features :: "string list" where
  "sample_features =
     [''Choose your gender'', ''Age'', ''What is your course?'', ''Your current year of Study'']"

fun cell_float :: "pyval \<Rightarrow> pyexc + pyfloat" where
  "cell_float (PyInt i) = Inr (Fin (of_int i))"
| "cell_float (PyStr s) = Inl (ValueError (''could not convert string to float: '' @ quoted s))"

fun cells_float :: "frame \<Rightarrow> pyexc + pyfloat list" where
  "cells_float [] = Inr []"
| "cells_float ((c, v) # rest) =
     (case cell_float v of Inl e \<Rightarrow> Inl e | Inr x \<Rightarrow>
     (case cells_float rest of Inl e \<Rightarrow> Inl e | Inr xs \<Rightarrow> Inr (x # xs)))"

definition sample_scaler :: "frame \<Rightarrow> pyexc + pyfloat list" where
  "sample_scaler df =
     (if length df = 4 then cells_float df
      else Inl (ValueError ''X has a different number of features than StandardScaler expects''))"

text \<open>A model that answers a fixed score, and one that fails.\<close>

definition constant_model :: "pyfloat \<Rightarrow> pyfloat list \<Rightarrow> pyexc + pyfloat list" where
  "constant_model score x = Inr [score]"

definition failing_model :: "pyfloat list \<Rightarrow> pyexc + pyfloat list" where
  "failing_model x = Inl (OtherError ''inference failed'')"

definition sample_artifacts :: "pyfloat \<Rightarrow> artifacts" where
  "sample_artifacts score =
     \<lparr>model = Some (constant_model score), scaler = Some sample_scaler,
      label_encoders = Some sample_encoders, feature_names = Some sample_features\<rparr>"

definition sample_student :: StudentInput where
  "sample_student =
     \<lparr>age = 21, gender = ''Male'', course = ''Engineering'', year = ''year 2'',
      marital_status = ''No'', depression = ''No'', anxiety = ''Yes'',
      panic_attack = ''No'', treatment = ''No''\<rparr>"

text \<open>
  Deployments whose artifacts do not fit together, one whose model fails, and one whose
  encoder file held \<^verbatim>\<open>None\<close>.
\<close>

definition drifted_columns :: artifacts where
  "drifted_columns = (sample_artifacts (Fin 3))\<lparr>feature_names := Some [''Age'', ''Height'']\<rparr>"

definition drifted_width :: artifacts where
  "drifted_width = (sample_artifacts (Fin 3))\<lparr>feature_names := Some [''Age'']\<rparr>"

definition broken_model :: artifacts where
  "broken_model = (sample_artifacts (Fin 3))\<lparr>model := Some failing_model\<rparr>"

definition missing_encoders :: artifacts where
  "missing_encoders = (sample_artifacts (Fin 3))\<lparr>label_encoders := None\<rparr>"

definition empty_prediction :: artifacts where
  "empty_prediction = (sample_artifacts (Fin 3))\<lparr>model := Some (\<lambda>x. Inr [])\<rparr>"

text \<open>
  A deployment whose feature names are in another order than the one the sample scaler
  was fitted on (gender before age); the scaler checks the width only.
\<close>

definition reordered_columns :: artifacts where
  "reordered_columns =
     (sample_artifacts (Fin 3))\<lparr>feature_names :=
        Some [''Age'', ''Choose your gender'', ''What is your course?'',
              ''Your current year of Study'']\<rparr>"



text \<open>The frame of the sample request after the encoding loop.\<close>

definition sample_frame :: frame where
  "sample_frame =
     [(''Age'', PyInt 21), (''Choose your gender'', PyInt 1),
      (''What is your course?'', PyInt 1), (''Your current year of Study'', PyInt 1),
      (''Marital status'', PyStr ''No''), (''Do you have Depression?'', PyStr ''No''),
      (''Do you have Anxiety?'', PyStr ''Yes''), (''Do you have Panic attack?'', PyStr ''No''),
      (''Did you seek any specialist for a treatment?'', PyStr ''No'')]"

text \<open>The four files of the sample deployment.\<close>

definition sample_pickles :: pickles where
  "sample_pickles =
     \<lparr>best_model_pkl = Inr (Some (constant_model (Fin 3))),
      scaler_pkl = Inr (Some sample_scaler),
      label_encoders_pkl = Inr (Some sample_encoders),
      feature_names_pkl = Inr (Some sample_features)\<rparr>"

section \<open>The band table of the specification\<close>

text \<open>
  The specification gives the interpretation as a table of thresholds, read from the
  top, the first row that matches deciding. The table below is that reading; it is
  compared with the \<^verbatim>\<open>if\<close> chain of the source.
\<close>

definition band_table :: "(rat \<times> string \<times> string) list" where
  "band_table =
     [(7 / 2, ''Excellent (3.50 - 4.00)'',
         ''Student is performing excellently! Keep up the great work.''),
      (3, ''Good (3.00 - 3.49)'', ''Student is performing well academically.''),
      (5 / 2, ''Average (2.50 - 2.99)'',
         ''Student is performing at an average level. Some improvement possible.''),
      (2, ''Below Average (2.00 - 2.49)'',
         ''Student may need academic support and intervention.'')]"

definition lowest_band :: "string \<times> string" where
  "lowest_band =
     (''Poor (0.00 - 1.99)'',
      ''Student requires immediate academic and mental health support.'')"

fun first_match :: "pyfloat \<Rightarrow> (rat \<times> string \<times> string) list \<Rightarrow> string \<times> string" where
  "first_match s [] = lowest_band"
| "first_match s ((t, band) # rest) = (if fl_ge s (Fin t) then band else first_match s rest)"

section \<open>Notions of the specification\<close>

text \<open>
  An encoder rejects a column of a request when the mapping has an encoder for the
  column, the request has a raw value for it, and the text of that value is not among
  the categories the encoder was fitted on.
\<close>

definition rejects :: "(string \<times> label_encoder) list \<Rightarrow> frame \<Rightarrow> string \<Rightarrow> pyval \<Rightarrow> bool" where
  "rejects les data col raw =
     (case map_of les col of
        None \<Rightarrow> False
      | Some classes \<Rightarrow> map_of data col = Some raw \<and> \<not> List.member classes (py_str raw))"

text \<open>
  A stage of the pipeline other than an encoder's rejection raises \<open>e\<close>: the encoding
  (when the encoder mapping is \<^verbatim>\<open>None\<close>), the selection of the feature columns, the
  scaler, the model, or the reading of the first prediction.
\<close>

definition stage_raises :: "artifacts \<Rightarrow> StudentInput \<Rightarrow> pyexc \<Rightarrow> bool" where
  "stage_raises g s e \<longleftrightarrow>
     encoded_frame g s = Inl (Exc e) \<or>
     (\<exists>df. encoded_frame g s = Inr df \<and>
        (select_columns (feature_names g) df = Inl e \<or>
         (\<exists>ordered. select_columns (feature_names g) df = Inr ordered \<and>
            (scaler_transform (scaler g) ordered = Inl e \<or>
             (\<exists>x. scaler_transform (scaler g) ordered = Inr x \<and>
                (model_predict (model g) x = Inl e \<or>
                 (\<exists>p. model_predict (model g) x = Inr p \<and> first_prediction p = Inl e)))))))"

text \<open>
  The schema in the words of the specification: the age between 18 and 30, the course of
  2 to 100 characters, and every enumerated field one of its literals.
\<close>

definition meets_schema :: "StudentInput \<Rightarrow> bool" where
  "meets_schema b \<longleftrightarrow>
     18 \<le> age b \<and> age b \<le> 30 \<and>
     2 \<le> length (course b) \<and> length (course b) \<le> 100 \<and>
     gender b \<in> {''Male'', ''Female''} \<and>
     year b \<in> {''year 1'', ''year 2'', ''year 3'', ''year 4''} \<and>
     marital_status b \<in> {''Yes'', ''No''} \<and>
     depression b \<in> {''Yes'', ''No''} \<and>
     anxiety b \<in> {''Yes'', ''No''} \<and>
     panic_attack b \<in> {''Yes'', ''No''} \<and>
     treatment b \<in> {''Yes'', ''No''}"

text \<open>A request of the sample deployment with a course the encoder has not seen.\<close>

definition unseen_student :: StudentInput where
  "unseen_student = sample_student\<lparr>course := ''Astrology''\<rparr>"

section \<open>Post-processing: rounding, clamping, interpretation\<close>

lemma clamp_cases:
  "py_max (Fin 0) (py_min (Fin 4) r) =
     (case r of Fin x \<Rightarrow> if x < 0 then Fin 0 else if 4 < x then Fin 4 else Fin x
      | PInf \<Rightarrow> Fin 4 | NInf \<Rightarrow> Fin 0 | NaN \<Rightarrow> Fin 4)"
  by (cases r) (auto simp: py_max_def py_min_def fl_gt_def)

lemma postprocess_fields:
  "predicted_cgpa (postprocess score) = py_max (Fin 0) (py_min (Fin 4) (py_round2 score))"
  "(cgpa_range (postprocess score), message (postprocess score)) =
     interpret_cgpa (predicted_cgpa (postprocess score))"
  by (simp_all add: postprocess_def Let_def split: prod.split)

lemma predict_cgpa_success:
  assumes "predict_cgpa g s = Inr out"
  shows "\<exists>score. model_score g s = Inr score \<and> out = postprocess score"
  using assms
  by (auto simp: predict_cgpa_def predict_body_def split: sum.splits exn.splits)

subsection \<open>The sample deployment, evaluated\<close>

lemma sample_round_half_even: "round_half_even (34951 / 100) = 350"
  by code_simp

lemma sample_encoded:
  "encoded_frame (sample_artifacts score) sample_student =
     Inr [(''Age'', PyInt 21), (''Choose your gender'', PyInt 1),
          (''What is your course?'', PyInt 1), (''Your current year of Study'', PyInt 1),
          (''Marital status'', PyStr ''No''), (''Do you have Depression?'', PyStr ''No''),
          (''Do you have Anxiety?'', PyStr ''Yes''), (''Do you have Panic attack?'', PyStr ''No''),
          (''Did you seek any specialist for a treatment?'', PyStr ''No'')]"
  by (simp add: encoded_frame_def sample_artifacts_def sample_student_def sample_encoders_def
      input_data_def transform_def set_column_def)

lemma sample_score: "model_score (sample_artifacts score) sample_student = Inr score"
  by (simp add: model_score_def sample_encoded)
     (simp add: sample_artifacts_def sample_features_def sample_scaler_def constant_model_def
      lift_exc_def select_columns_def List.map_filter_def scaler_transform_def
      model_predict_def first_prediction_def)

lemma sample_prediction:
  "predict_cgpa (sample_artifacts (Fin (34951 / 10000))) sample_student =
     Inr \<lparr>predicted_cgpa = Fin (7 / 2), cgpa_range = ''Excellent (3.50 - 4.00)'',
          message = ''Student is performing excellently! Keep up the great work.''\<rparr>"
  by (simp add: predict_cgpa_def predict_body_def sample_score postprocess_def
      sample_round_half_even py_max_def py_min_def fl_gt_def interpret_cgpa_def)

subsection \<open>Claims about the post-processing\<close>

lemma round_half_even_nearest: "\<bar>of_int (round_half_even x) - x\<bar> \<le> 1 / 2"
  unfolding round_half_even_def Let_def
  by (auto simp: abs_if) linarith+

lemma round_half_even_tie:
  assumes "\<bar>of_int (round_half_even x) - x\<bar> = 1 / 2"
  shows "even (round_half_even x)"
proof -
  define f where "f = \<lfloor>x\<rfloor>"
  define d where "d = x - of_int f"
  have d: "0 \<le> d" "d < 1"
    unfolding d_def f_def by linarith+
  consider "d < 1 / 2" | "1 / 2 < d" | "d = 1 / 2" by linarith
  then show ?thesis
  proof cases
    case 1
    then have "round_half_even x = f"
      by (simp add: round_half_even_def Let_def f_def d_def)
    with assms d 1 show ?thesis by (simp add: d_def abs_if split: if_splits)
  next
    case 2
    then have "round_half_even x = f + 1"
      by (simp add: round_half_even_def Let_def f_def d_def)
    with assms d 2 show ?thesis by (simp add: d_def abs_if split: if_splits)
  next
    case 3
    then have "round_half_even x = (if even f then f else f + 1)"
      by (simp add: round_half_even_def Let_def f_def d_def)
    then show ?thesis by simp
  qed
qed

lemma py_round2_nearest_hundredth:
  "\<exists>k::int. py_round2 (Fin x) = Fin (of_int k / 100) \<and> \<bar>of_int k - x * 100\<bar> \<le> 1 / 2 \<and>
     (\<bar>of_int k - x * 100\<bar> = 1 / 2 \<longrightarrow> even k)"
  using round_half_even_nearest [of "x * 100"] round_half_even_tie [of "x * 100"]
  by (intro exI [of _ "round_half_even (x * 100)"]) simp

text \<open>
  Claim C1. Whenever the handler returns a prediction, the model produced a score. The
  score is rounded first: a finite score \<open>x\<close> becomes the multiple \<open>k/100\<close> of a hundredth
  nearest to it (\<open>|k - 100 x| \<le> 1/2\<close>, and \<open>k\<close> even when \<open>x\<close> lies exactly between two
  hundredths), an infinity or \<open>NaN\<close> stays as it is. The rounded score is clamped
  afterwards: inside \<open>[0, 4]\<close> it is returned as it is, below \<open>0\<close> it becomes \<open>0\<close>, above
  \<open>4\<close> it becomes \<open>4\<close> (as does \<open>NaN\<close>), so the returned \<open>predicted_cgpa\<close> always lies in
  \<open>[0, 4]\<close>. The range and the message are the interpretation of that same returned
  value.
\<close>

theorem predict_rounds_then_clamps_then_bands:
  assumes "predict_cgpa g s = Inr out"
  shows "\<exists>score. model_score g s = Inr score \<and>
           (let r = py_round2 score; c = predicted_cgpa out
            in (\<forall>x. score = Fin x \<longrightarrow>
                  (\<exists>k::int. r = Fin (of_int k / 100) \<and> \<bar>of_int k - x * 100\<bar> \<le> 1 / 2 \<and>
                     (\<bar>of_int k - x * 100\<bar> = 1 / 2 \<longrightarrow> even k))) \<and>
               (score = PInf \<or> score = NInf \<or> score = NaN \<longrightarrow> r = score) \<and>
               (fl_ge r (Fin 0) \<and> fl_ge (Fin 4) r \<longrightarrow> c = r) \<and>
               (fl_lt r (Fin 0) \<longrightarrow> c = Fin 0) \<and>
               (fl_gt r (Fin 4) \<longrightarrow> c = Fin 4) \<and>
               (r = NaN \<longrightarrow> c = Fin 4) \<and>
               fl_ge c (Fin 0) \<and> fl_ge (Fin 4) c \<and>
               (cgpa_range out, message out) = interpret_cgpa c)"
proof -
  from assms obtain score where sc: "model_score g s = Inr score" and out: "out = postprocess score"
    using predict_cgpa_success by blast
  have c: "predicted_cgpa out = py_max (Fin 0) (py_min (Fin 4) (py_round2 score))"
    by (simp add: out postprocess_fields)
  have band: "(cgpa_range out, message out) = interpret_cgpa (predicted_cgpa out)"
    by (simp add: out postprocess_fields)
  have rounded: "\<forall>x. score = Fin x \<longrightarrow>
      (\<exists>k::int. py_round2 score = Fin (of_int k / 100) \<and> \<bar>of_int k - x * 100\<bar> \<le> 1 / 2 \<and>
         (\<bar>of_int k - x * 100\<bar> = 1 / 2 \<longrightarrow> even k))"
    using py_round2_nearest_hundredth by blast
  have special: "score = PInf \<or> score = NInf \<or> score = NaN \<longrightarrow> py_round2 score = score"
    by auto
  have clamp: "(fl_ge (py_round2 score) (Fin 0) \<and> fl_ge (Fin 4) (py_round2 score) \<longrightarrow>
                   predicted_cgpa out = py_round2 score) \<and>
               (fl_lt (py_round2 score) (Fin 0) \<longrightarrow> predicted_cgpa out = Fin 0) \<and>
               (fl_gt (py_round2 score) (Fin 4) \<longrightarrow> predicted_cgpa out = Fin 4) \<and>
               (py_round2 score = NaN \<longrightarrow> predicted_cgpa out = Fin 4) \<and>
               fl_ge (predicted_cgpa out) (Fin 0) \<and> fl_ge (Fin 4) (predicted_cgpa out)"
    unfolding c clamp_cases by (cases "py_round2 score") (auto simp: fl_gt_def)
  from sc rounded special clamp band show ?thesis unfolding Let_def by blast
qed

lemma tie_round_half_even: "round_half_even (25 / 2) = 12"
  by code_simp

lemma tie_prediction:
  "predict_cgpa (sample_artifacts (Fin (1 / 8))) sample_student =
     Inr \<lparr>predicted_cgpa = Fin (3 / 25), cgpa_range = ''Poor (0.00 - 1.99)'',
          message = ''Student requires immediate academic and mental health support.''\<rparr>"
  by (simp add: predict_cgpa_def predict_body_def sample_score postprocess_def
      tie_round_half_even py_max_def py_min_def fl_gt_def interpret_cgpa_def)

text \<open>
  The sample deployment with a model score of \<open>3.4951\<close>: the score itself is below
  \<open>3.50\<close>, the rounded score is \<open>3.50\<close>, and the response is in the top band. With a score
  of \<open>0.125\<close>, exactly between \<open>0.12\<close> and \<open>0.13\<close>, the response carries \<open>0.12\<close>.
\<close>

theorem predict_rounds_then_clamps_then_bands_witness:
  "predict_cgpa (sample_artifacts (Fin (34951 / 10000))) sample_student =
     Inr \<lparr>predicted_cgpa = Fin (7 / 2), cgpa_range = ''Excellent (3.50 - 4.00)'',
          message = ''Student is performing excellently! Keep up the great work.''\<rparr>
   \<and> model_score (sample_artifacts (Fin (34951 / 10000))) sample_student = Inr (Fin (34951 / 10000))
   \<and> py_round2 (Fin (34951 / 10000)) = Fin (7 / 2)
   \<and> interpret_cgpa (Fin (7 / 2)) =
       (''Excellent (3.50 - 4.00)'', ''Student is performing excellently! Keep up the great work.'')
   \<and> fst (interpret_cgpa (Fin (34951 / 10000))) = ''Good (3.00 - 3.49)''
   \<and> predict_cgpa (sample_artifacts (Fin (1 / 8))) sample_student =
       Inr \<lparr>predicted_cgpa = Fin (3 / 25), cgpa_range = ''Poor (0.00 - 1.99)'',
            message = ''Student requires immediate academic and mental health support.''\<rparr>
   \<and> py_round2 (Fin (1 / 8)) = Fin (12 / 100)"
  using predict_rounds_then_clamps_then_bands [OF sample_prediction]
    predict_rounds_then_clamps_then_bands [OF tie_prediction]
  by (simp add: sample_prediction tie_prediction sample_score sample_round_half_even
      tie_round_half_even interpret_cgpa_def)

text \<open>
  Claim C2. The interpretation of a score is the first matching row of the band table,
  read from the top, and the lowest band when no row matches; the result is one of the
  five fixed pairs; and \<open>3.50\<close>, \<open>3.49\<close>, \<open>2.99\<close>, \<open>2.49\<close>, \<open>1.99\<close> fall into Excellent,
  Good, Average, Below Average and Poor.
\<close>

theorem interpret_cgpa_bands:
  "interpret_cgpa s = first_match s band_table
   \<and> List.member (map snd band_table @ [lowest_band]) (interpret_cgpa s)
   \<and> fst (interpret_cgpa (Fin (350 / 100))) = ''Excellent (3.50 - 4.00)''
   \<and> fst (interpret_cgpa (Fin (349 / 100))) = ''Good (3.00 - 3.49)''
   \<and> fst (interpret_cgpa (Fin (299 / 100))) = ''Average (2.50 - 2.99)''
   \<and> fst (interpret_cgpa (Fin (249 / 100))) = ''Below Average (2.00 - 2.49)''
   \<and> fst (interpret_cgpa (Fin (199 / 100))) = ''Poor (0.00 - 1.99)''"
proof -
  have table: "interpret_cgpa s = first_match s band_table"
    by (simp add: interpret_cgpa_def band_table_def lowest_band_def)
  have one_of: "List.member (map snd band_table @ [lowest_band]) (interpret_cgpa s)"
    by (simp add: interpret_cgpa_def band_table_def lowest_band_def)
  have points:
    "fst (interpret_cgpa (Fin (350 / 100))) = ''Excellent (3.50 - 4.00)''"
    "fst (interpret_cgpa (Fin (349 / 100))) = ''Good (3.00 - 3.49)''"
    "fst (interpret_cgpa (Fin (299 / 100))) = ''Average (2.50 - 2.99)''"
    "fst (interpret_cgpa (Fin (249 / 100))) = ''Below Average (2.00 - 2.49)''"
    "fst (interpret_cgpa (Fin (199 / 100))) = ''Poor (0.00 - 1.99)''"
    by (simp_all add: interpret_cgpa_def)
  from table one_of points show ?thesis by blast
qed

lemma sample_valid: "validate_StudentInput sample_student = Inr sample_student"
  by (simp add: validate_StudentInput_def field_violations_def sample_student_def check_ge_def
      check_le_def check_literal_def check_min_length_def check_max_length_def)

lemma sample_post_predict:
  "post_predict (sample_artifacts score) sample_student = Prediction (postprocess score)"
  by (simp add: post_predict_def sample_valid predict_cgpa_def predict_body_def sample_score)

lemma post_predict_success:
  assumes "post_predict g body = Prediction out"
  shows "validate_StudentInput body = Inr body \<and> predict_cgpa g body = Inr out"
  using assms
  by (auto simp: post_predict_def validate_StudentInput_def Let_def
      split: sum.splits exn.splits if_splits)

lemma clamped_hundredths:
  "\<exists>k::int. py_max (Fin 0) (py_min (Fin 4) (py_round2 score)) = Fin (of_int k / 100) \<and>
     0 \<le> k \<and> k \<le> 400"
proof (cases score)
  case (Fin x)
  define K where "K = round_half_even (x * 100)"
  consider "K < 0" | "0 \<le> K" "K \<le> 400" | "400 < K" by linarith
  then show ?thesis
  proof cases
    case 1
    then have "py_max (Fin 0) (py_min (Fin 4) (py_round2 score)) = Fin (of_int 0 / 100)"
      by (simp add: Fin clamp_cases K_def)
    then show ?thesis by (intro exI [of _ 0]) simp
  next
    case 2
    then have "py_max (Fin 0) (py_min (Fin 4) (py_round2 score)) = Fin (of_int K / 100)"
      by (simp add: Fin clamp_cases K_def)
    with 2 show ?thesis by blast
  next
    case 3
    then have "py_max (Fin 0) (py_min (Fin 4) (py_round2 score)) = Fin (of_int 400 / 100)"
      by (simp add: Fin clamp_cases K_def)
    then show ?thesis by (intro exI [of _ 400]) simp
  qed
next
  case PInf
  then show ?thesis by (intro exI [of _ 400]) (simp add: clamp_cases)
next
  case NInf
  then show ?thesis by (intro exI [of _ 0]) (simp add: clamp_cases)
next
  case NaN
  then show ?thesis by (intro exI [of _ 400]) (simp add: clamp_cases)
qed

lemma round_half_even_473: "round_half_even 473 = 473"
  by code_simp

lemma sample_post_predict_high:
  "post_predict (sample_artifacts (Fin (473 / 100))) sample_student =
     Prediction \<lparr>predicted_cgpa = Fin 4, cgpa_range = ''Excellent (3.50 - 4.00)'',
       message = ''Student is performing excellently! Keep up the great work.''\<rparr>"
  by (simp add: sample_post_predict postprocess_def round_half_even_473
      py_max_def py_min_def fl_gt_def interpret_cgpa_def)

text \<open>
  Claim C3. The \<open>predicted_cgpa\<close> of every successful response to \<open>POST /predict\<close> is a
  whole number of hundredths between \<open>0.00\<close> and \<open>4.00\<close>, whatever the body and whatever
  score the model returned (infinities and \<open>NaN\<close> included).
\<close>

theorem predicted_cgpa_two_decimals_in_range:
  assumes "post_predict g body = Prediction out"
  shows "\<exists>k::int. predicted_cgpa out = Fin (of_int k / 100) \<and> 0 \<le> k \<and> k \<le> 400"
proof -
  from assms have "predict_cgpa g body = Inr out"
    using post_predict_success by blast
  then obtain score where "out = postprocess score"
    using predict_cgpa_success by blast
  then show ?thesis
    using clamped_hundredths [of score] by (simp add: postprocess_fields)
qed

text \<open>The sample deployment with a model score of \<open>4.73\<close>: the response carries \<open>4.00\<close>.\<close>

theorem predicted_cgpa_two_decimals_in_range_witness:
  "post_predict (sample_artifacts (Fin (473 / 100))) sample_student =
     Prediction \<lparr>predicted_cgpa = Fin 4, cgpa_range = ''Excellent (3.50 - 4.00)'',
       message = ''Student is performing excellently! Keep up the great work.''\<rparr>
   \<and> (\<exists>k::int. Fin 4 = Fin (of_int k / 100) \<and> 0 \<le> k \<and> k \<le> 400)"
  using predicted_cgpa_two_decimals_in_range [OF sample_post_predict_high]
  by (simp add: sample_post_predict_high)

section \<open>Schema validation\<close>

lemmas check_defs = check_ge_def check_le_def check_literal_def check_min_length_def
  check_max_length_def

lemma no_violations_iff: "field_violations b = [] \<longleftrightarrow> meets_schema b"
  unfolding field_violations_def meets_schema_def check_defs
  by (simp only: append_is_Nil_conv if_split_eq1) auto

lemma validate_cases:
  "validate_StudentInput b = (if meets_schema b then Inr b else Inl (field_violations b))"
  by (simp add: validate_StudentInput_def Let_def no_violations_iff)

text \<open>
  Claim C5. Validation accepts a body exactly when it meets the schema, and the accepted
  object has the fields of the body. A body that does not meet the schema is answered
  with the 422 response listing its violations whatever the loaded artifacts are (the
  handler and its encoders are never reached); a body that meets it is never answered
  so.
\<close>

theorem schema_accepts_exactly:
  "(validate_StudentInput b = Inr b \<longleftrightarrow> meets_schema b)
   \<and> (\<forall>s. validate_StudentInput b = Inr s \<longrightarrow> s = b)
   \<and> (\<not> meets_schema b \<longrightarrow>
        field_violations b \<noteq> [] \<and> (\<forall>g. post_predict g b = Unprocessable (field_violations b)))
   \<and> (meets_schema b \<longrightarrow> (\<forall>g errs. post_predict g b \<noteq> Unprocessable errs))"
proof -
  have a: "validate_StudentInput b = Inr b \<longleftrightarrow> meets_schema b"
    by (simp add: validate_cases)
  have b: "\<forall>s. validate_StudentInput b = Inr s \<longrightarrow> s = b"
    by (simp add: validate_cases)
  have c: "\<not> meets_schema b \<longrightarrow>
        field_violations b \<noteq> [] \<and> (\<forall>g. post_predict g b = Unprocessable (field_violations b))"
    by (simp add: post_predict_def validate_cases no_violations_iff)
  have d: "meets_schema b \<longrightarrow> (\<forall>g errs. post_predict g b \<noteq> Unprocessable errs)"
    by (auto simp: post_predict_def validate_cases split: sum.splits exn.splits)
  from a b c d show ?thesis by blast
qed

lemma sample_meets_schema:
  "meets_schema (sample_student\<lparr>age := 18\<rparr>)"
  "meets_schema (sample_student\<lparr>age := 30\<rparr>)"
  "\<not> meets_schema (sample_student\<lparr>age := 17\<rparr>)"
  "\<not> meets_schema (sample_student\<lparr>age := 31\<rparr>)"
  "meets_schema (sample_student\<lparr>course := replicate 2 CHR ''x''\<rparr>)"
  "meets_schema (sample_student\<lparr>course := replicate 100 CHR ''x''\<rparr>)"
  "\<not> meets_schema (sample_student\<lparr>course := replicate 1 CHR ''x''\<rparr>)"
  "\<not> meets_schema (sample_student\<lparr>course := replicate 101 CHR ''x''\<rparr>)"
  "\<not> meets_schema (sample_student\<lparr>gender := ''Other''\<rparr>)"
  by (simp_all add: meets_schema_def sample_student_def)

lemma sample_violations:
  "field_violations (sample_student\<lparr>age := 17\<rparr>) = [(''age'', BelowMinimum)]"
  "field_violations (sample_student\<lparr>age := 31\<rparr>) = [(''age'', AboveMaximum)]"
  "field_violations (sample_student\<lparr>course := replicate 1 CHR ''x''\<rparr>) = [(''course'', TooShort)]"
  "field_violations (sample_student\<lparr>course := replicate 101 CHR ''x''\<rparr>) = [(''course'', TooLong)]"
  "field_violations (sample_student\<lparr>gender := ''Other''\<rparr>) = [(''gender'', NotALiteral)]"
  by (simp_all add: field_violations_def check_defs sample_student_def)

text \<open>
  The boundaries: ages 18 and 30 are accepted, 17 and 31 rejected; courses of 2 and 100
  characters are accepted, of 1 and 101 rejected; a gender outside the literals is
  rejected.
\<close>

theorem schema_accepts_exactly_witness:
  "validate_StudentInput (sample_student\<lparr>age := 18\<rparr>) = Inr (sample_student\<lparr>age := 18\<rparr>)
   \<and> validate_StudentInput (sample_student\<lparr>age := 30\<rparr>) = Inr (sample_student\<lparr>age := 30\<rparr>)
   \<and> post_predict (sample_artifacts (Fin 3)) (sample_student\<lparr>age := 17\<rparr>) =
       Unprocessable [(''age'', BelowMinimum)]
   \<and> post_predict (sample_artifacts (Fin 3)) (sample_student\<lparr>age := 31\<rparr>) =
       Unprocessable [(''age'', AboveMaximum)]
   \<and> validate_StudentInput (sample_student\<lparr>course := replicate 2 CHR ''x''\<rparr>) =
       Inr (sample_student\<lparr>course := replicate 2 CHR ''x''\<rparr>)
   \<and> validate_StudentInput (sample_student\<lparr>course := replicate 100 CHR ''x''\<rparr>) =
       Inr (sample_student\<lparr>course := replicate 100 CHR ''x''\<rparr>)
   \<and> post_predict (sample_artifacts (Fin 3)) (sample_student\<lparr>course := replicate 1 CHR ''x''\<rparr>) =
       Unprocessable [(''course'', TooShort)]
   \<and> post_predict (sample_artifacts (Fin 3)) (sample_student\<lparr>course := replicate 101 CHR ''x''\<rparr>) =
       Unprocessable [(''course'', TooLong)]
   \<and> post_predict (sample_artifacts (Fin 3)) (sample_student\<lparr>gender := ''Other''\<rparr>) =
       Unprocessable [(''gender'', NotALiteral)]"
  using schema_accepts_exactly [of "sample_student\<lparr>age := 18\<rparr>"]
    schema_accepts_exactly [of "sample_student\<lparr>age := 30\<rparr>"]
    schema_accepts_exactly [of "sample_student\<lparr>age := 17\<rparr>"]
    schema_accepts_exactly [of "sample_student\<lparr>age := 31\<rparr>"]
    schema_accepts_exactly [of "sample_student\<lparr>course := replicate 2 CHR ''x''\<rparr>"]
    schema_accepts_exactly [of "sample_student\<lparr>course := replicate 100 CHR ''x''\<rparr>"]
    schema_accepts_exactly [of "sample_student\<lparr>course := replicate 1 CHR ''x''\<rparr>"]
    schema_accepts_exactly [of "sample_student\<lparr>course := replicate 101 CHR ''x''\<rparr>"]
    schema_accepts_exactly [of "sample_student\<lparr>gender := ''Other''\<rparr>"]
  by (simp only: sample_meets_schema sample_violations simp_thms)

section \<open>The encoding loop and the responses of the handler\<close>

lemma columns_set_column [simp]: "map fst (set_column col v df) = map fst df"
  by (induction df) (auto simp: set_column_def)

lemma same_columns: "map fst df = map fst data \<Longrightarrow> fst ` set df = fst ` set data"
  by (metis set_map)

lemma in_columns: "k \<in> fst ` set xs \<longleftrightarrow> map_of xs k \<noteq> None"
  by (simp add: map_of_eq_None_iff)

lemma encode_step_seen:
  assumes "map_of data k = Some raw" "map_of les k = Some classes"
    "List.member classes (py_str raw)" "map fst df = map fst data"
  shows "encode_columns les (k # cols) data df =
           encode_columns les cols data
             (set_column k (PyInt (int (index_of classes (py_str raw)))) df)"
  using assms same_columns [OF assms(4)] by (simp add: in_columns transform_def)

lemma encode_step_unseen:
  assumes "map_of data k = Some raw" "map_of les k = Some classes"
    "\<not> List.member classes (py_str raw)" "map fst df = map fst data"
  shows "encode_columns les (k # cols) data df = Inl (HTTPException 400 (unseen_detail k raw))"
  using assms same_columns [OF assms(4)] by (simp add: in_columns transform_def)

lemma encode_step_absent:
  assumes "map_of data k = None" "map fst df = map fst data"
  shows "encode_columns les (k # cols) data df = encode_columns les cols data df"
  using assms same_columns [OF assms(2)] by (simp add: in_columns)

lemma encode_columns_result:
  assumes "map fst df = map fst data"
    and "list_all (\<lambda>k. map_of les k \<noteq> None) cols"
  shows "(\<exists>df'. encode_columns les cols data df = Inr df' \<and> map fst df' = map fst data \<and>
             \<not> (\<exists>c v. List.member cols c \<and> rejects les data c v))
         \<or> (\<exists>c v. List.member cols c \<and> rejects les data c v \<and>
             encode_columns les cols data df = Inl (HTTPException 400 (unseen_detail c v)))"
  using assms
proof (induction cols arbitrary: df)
  case Nil
  then show ?case by simp
next
  case (Cons k cols)
  from Cons.prems(2) obtain classes where cls: "map_of les k = Some classes"
    and rest: "list_all (\<lambda>k. map_of les k \<noteq> None) cols"
    by auto
  show ?case
  proof (cases "map_of data k")
    case None
    then have no: "\<And>v. \<not> rejects les data k v"
      by (simp add: rejects_def cls)
    from Cons.IH [OF Cons.prems(1) rest] no
    show ?thesis
      using encode_step_absent [OF None Cons.prems(1)] by auto
  next
    case (Some raw')
    show ?thesis
    proof (cases "List.member classes (py_str raw')")
      case False
      then have "rejects les data k raw'"
        by (simp add: rejects_def cls Some)
      then show ?thesis
        using encode_step_unseen [OF Some cls False Cons.prems(1)] by auto
    next
      case True
      then have no: "\<And>v. \<not> rejects les data k v"
        by (auto simp: rejects_def cls Some)
      have "map fst (set_column k (PyInt (int (index_of classes (py_str raw')))) df) = map fst data"
        using Cons.prems(1) by simp
      from Cons.IH [OF this rest] no
      show ?thesis
        using encode_step_seen [OF Some cls True Cons.prems(1)] by auto
    qed
  qed
qed

lemma keys_have_encoders: "list_all (\<lambda>k. map_of les k \<noteq> None) (map fst les)"
  by (auto simp: list_all_iff dest: weak_map_of_SomeI)

lemma rejects_key: "rejects les data c v \<Longrightarrow> c \<in> fst ` set les"
  by (force simp: rejects_def split: option.splits dest!: map_of_SomeD)

lemma encoded_frame_result:
  assumes "label_encoders g = Some les"
  shows "(\<exists>df. encoded_frame g s = Inr df \<and> \<not> (\<exists>c v. rejects les (input_data s) c v))
         \<or> (\<exists>c v. rejects les (input_data s) c v \<and>
               encoded_frame g s = Inl (HTTPException 400 (unseen_detail c v)))"
proof -
  have unfold: "encoded_frame g s = encode_columns les (map fst les) (input_data s) (input_data s)"
    by (simp add: encoded_frame_def assms Let_def)
  have keys: "List.member (map fst les) c" if "rejects les (input_data s) c v" for c v
    using rejects_key [OF that] by simp
  from encode_columns_result [OF refl keys_have_encoders, of les "input_data s"]
  show ?thesis
    unfolding unfold using keys by blast
qed

lemma encoded_frame_no_encoders:
  assumes "label_encoders g = None"
  shows "encoded_frame g s = Inl (Exc (none_has_no_attribute ''keys''))"
  using assms by (simp add: encoded_frame_def)

lemma predict_body_http:
  "predict_body g s = Inl (HTTPException code d) \<longleftrightarrow> encoded_frame g s = Inl (HTTPException code d)"
  by (auto simp: predict_body_def model_score_def lift_exc_def split: sum.splits)

lemma predict_cgpa_http:
  "predict_cgpa g s = Inl (HTTPException code d) \<longleftrightarrow>
     predict_body g s = Inl (HTTPException code d) \<or>
     (code = 500 \<and> (\<exists>e. predict_body g s = Inl (Exc e) \<and> d = ''Prediction error: '' @ exc_str e))"
  by (auto simp: predict_cgpa_def split: sum.splits exn.splits)

lemma encoded_frame_http:
  "encoded_frame g s = Inl (HTTPException code d) \<longleftrightarrow>
     (\<exists>les c v. label_encoders g = Some les \<and> rejects les (input_data s) c v \<and>
        code = 400 \<and> encoded_frame g s = Inl (HTTPException 400 d))"
proof (cases "label_encoders g")
  case None
  then show ?thesis by (simp add: encoded_frame_no_encoders)
next
  case (Some les)
  from encoded_frame_result [OF Some, of s] show ?thesis
    using Some by auto
qed

text \<open>
  Claim C4. For a body that meets the schema: when the encoder mapping is loaded and some
  column of it rejects the body's raw value, \<open>POST /predict\<close> answers 400 (the handler
  raises that \<^verbatim>\<open>HTTPException\<close>), and the detail is the sentence
  \<^verbatim>\<open>Invalid value for c: v. Must be one of the categories in training data.\<close> with the
  name \<^verbatim>\<open>c\<close> of a rejecting column (the first the loop meets) and the text \<^verbatim>\<open>v\<close> of
  that column's raw value; when only one column rejects, it is that column. The answer
  is the same whatever the model, the scaler and the feature names are: none of them is
  consulted, so no prediction is made.
\<close>

theorem unseen_category_is_400:
  assumes "meets_schema body" and "label_encoders g = Some les"
    and "rejects les (input_data body) col raw"
  shows "\<exists>c v. rejects les (input_data body) c v \<and>
           post_predict g body =
             Failure 400 (''Invalid value for '' @ c @ '': '' @ py_str v @
               ''. Must be one of the categories in training data.'') \<and>
           predict_cgpa g body =
             Inl (HTTPException 400 (''Invalid value for '' @ c @ '': '' @ py_str v @
               ''. Must be one of the categories in training data.'')) \<and>
           (\<forall>m sc ns. post_predict (g\<lparr>model := m, scaler := sc, feature_names := ns\<rparr>) body =
                        post_predict g body) \<and>
           ((\<forall>c' v'. rejects les (input_data body) c' v' \<longrightarrow> c' = col) \<longrightarrow> c = col \<and> v = raw)"
proof -
  from encoded_frame_result [OF assms(2), of body] assms(3)
  obtain c v where rej: "rejects les (input_data body) c v"
    and enc: "encoded_frame g body = Inl (HTTPException 400 (unseen_detail c v))"
    by blast
  have same: "encoded_frame (g\<lparr>model := m, scaler := sc, feature_names := ns\<rparr>) body =
      encoded_frame g body" for m sc ns
    by (simp add: encoded_frame_def)
  have handler: "predict_cgpa g' body = Inl (HTTPException 400 (unseen_detail c v))"
    if "encoded_frame g' body = Inl (HTTPException 400 (unseen_detail c v))" for g'
    using that by (simp add: predict_cgpa_def predict_body_def model_score_def)
  have route: "post_predict g' body = Failure 400 (unseen_detail c v)"
    if "encoded_frame g' body = Inl (HTTPException 400 (unseen_detail c v))" for g'
    using handler [OF that] assms(1) by (simp add: post_predict_def validate_cases)
  have uniq: "c = col \<and> v = raw" if "\<forall>c' v'. rejects les (input_data body) c' v' \<longrightarrow> c' = col"
    using that rej assms(3) by (auto simp: rejects_def split: option.splits)
  from rej handler [OF enc] route [OF enc]
    route [of "g\<lparr>model := _, scaler := _, feature_names := _\<rparr>"] same enc uniq
  have "\<exists>c v. rejects les (input_data body) c v \<and>
           post_predict g body = Failure 400 (unseen_detail c v) \<and>
           predict_cgpa g body = Inl (HTTPException 400 (unseen_detail c v)) \<and>
           (\<forall>m sc ns. post_predict (g\<lparr>model := m, scaler := sc, feature_names := ns\<rparr>) body =
                        post_predict g body) \<and>
           ((\<forall>c' v'. rejects les (input_data body) c' v' \<longrightarrow> c' = col) \<longrightarrow> c = col \<and> v = raw)"
    by (intro exI [of _ c] exI [of _ v]) simp
  then show ?thesis
    by (simp only: unseen_detail_def)
qed

lemma unseen_rejects:
  "rejects sample_encoders (input_data unseen_student) ''What is your course?'' (PyStr ''Astrology'')"
  by (simp add: rejects_def sample_encoders_def input_data_def unseen_student_def sample_student_def)

lemma unseen_only_course:
  "rejects sample_encoders (input_data unseen_student) c v \<Longrightarrow> c = ''What is your course?''"
  by (auto simp: rejects_def sample_encoders_def input_data_def unseen_student_def
      sample_student_def split: if_splits)

lemma sample_label_encoders: "label_encoders (sample_artifacts score) = Some sample_encoders"
  by (simp add: sample_artifacts_def)

lemma unseen_meets_schema: "meets_schema unseen_student"
  by (simp add: meets_schema_def unseen_student_def sample_student_def)

text \<open>
  The sample deployment and a body whose course is \<open>Astrology\<close>: the body meets the
  schema, the course column is the only one an encoder rejects, and the detail names it
  and the value.
\<close>

theorem unseen_category_is_400_witness:
  "meets_schema unseen_student
   \<and> label_encoders (sample_artifacts (Fin 3)) = Some sample_encoders
   \<and> rejects sample_encoders (input_data unseen_student) ''What is your course?'' (PyStr ''Astrology'')
   \<and> post_predict (sample_artifacts (Fin 3)) unseen_student =
       Failure 400
         ''Invalid value for What is your course?: Astrology. Must be one of the categories in training data.''"
proof -
  from unseen_category_is_400 [OF unseen_meets_schema sample_label_encoders unseen_rejects, of "Fin 3"]
  obtain c v where
    resp: "post_predict (sample_artifacts (Fin 3)) unseen_student =
             Failure 400 (''Invalid value for '' @ c @ '': '' @ py_str v @
               ''. Must be one of the categories in training data.'')"
    and uniq: "(\<forall>c' v'. rejects sample_encoders (input_data unseen_student) c' v' \<longrightarrow>
                  c' = ''What is your course?'') \<longrightarrow>
               c = ''What is your course?'' \<and> v = PyStr ''Astrology''"
    by blast
  from uniq unseen_only_course have "c = ''What is your course?''" "v = PyStr ''Astrology''"
    by blast+
  with resp show ?thesis
    by (simp add: sample_label_encoders unseen_rejects unseen_meets_schema)
qed

lemma sample_no_rejects: "\<not> rejects sample_encoders (input_data sample_student) c v"
proof -
  have other: "map_of sample_encoders c = None"
    if "c \<notin> {''Choose your gender'', ''What is your course?'', ''Your current year of Study''}"
    using that by (simp add: sample_encoders_def)
  consider "c = ''Choose your gender''" | "c = ''What is your course?''"
    | "c = ''Your current year of Study''"
    | "c \<notin> {''Choose your gender'', ''What is your course?'', ''Your current year of Study''}"
    by blast
  then show ?thesis
  proof cases
    case 4
    then show ?thesis by (simp add: rejects_def other)
  qed (auto simp: rejects_def sample_encoders_def input_data_def sample_student_def)
qed

lemma broken_model_encoders: "label_encoders broken_model = Some sample_encoders"
  by (simp add: broken_model_def sample_artifacts_def)

subsection \<open>The two \<^verbatim>\<open>except\<close> clauses\<close>

text \<open>
  Claim C10. The handler answers 400 exactly when the encoder mapping is loaded and some
  encoder rejects the request's value; an \<^verbatim>\<open>HTTPException\<close> raised in the body leaves the
  handler unchanged; the handler answers 500 exactly when the body raised an exception
  that is not an \<^verbatim>\<open>HTTPException\<close>; and no other exception ever leaves the handler.
\<close>

theorem status_400_iff_encoder_rejects:
  "((\<exists>d. predict_cgpa g s = Inl (HTTPException 400 d)) \<longleftrightarrow>
      (\<exists>les c v. label_encoders g = Some les \<and> rejects les (input_data s) c v))
   \<and> (\<forall>code d. predict_body g s = Inl (HTTPException code d) \<longrightarrow>
         predict_cgpa g s = Inl (HTTPException code d))
   \<and> ((\<exists>d. predict_cgpa g s = Inl (HTTPException 500 d)) \<longleftrightarrow>
         (\<exists>e. predict_body g s = Inl (Exc e)))
   \<and> (\<forall>e. predict_cgpa g s \<noteq> Inl (Exc e))"
proof -
  have body_http: "predict_body g s = Inl (HTTPException code d) \<Longrightarrow> code = 400" for code d
    using encoded_frame_http [of g s code d] by (auto simp: predict_body_http)
  have a: "(\<exists>d. predict_cgpa g s = Inl (HTTPException 400 d)) \<longleftrightarrow>
      (\<exists>les c v. label_encoders g = Some les \<and> rejects les (input_data s) c v)"
  proof
    assume "\<exists>d. predict_cgpa g s = Inl (HTTPException 400 d)"
    then obtain d where "predict_cgpa g s = Inl (HTTPException 400 d)" ..
    then have "encoded_frame g s = Inl (HTTPException 400 d)"
      by (simp add: predict_cgpa_http predict_body_http)
    then show "\<exists>les c v. label_encoders g = Some les \<and> rejects les (input_data s) c v"
      using encoded_frame_http [of g s 400 d] by blast
  next
    assume "\<exists>les c v. label_encoders g = Some les \<and> rejects les (input_data s) c v"
    then obtain les c v where les: "label_encoders g = Some les"
      and rej: "rejects les (input_data s) c v" by blast
    from encoded_frame_result [OF les, of s] rej
    obtain d where "encoded_frame g s = Inl (HTTPException 400 d)" by blast
    then have "predict_cgpa g s = Inl (HTTPException 400 d)"
      by (simp add: predict_cgpa_http predict_body_http)
    then show "\<exists>d. predict_cgpa g s = Inl (HTTPException 400 d)" ..
  qed
  have b: "\<forall>code d. predict_body g s = Inl (HTTPException code d) \<longrightarrow>
         predict_cgpa g s = Inl (HTTPException code d)"
    by (simp add: predict_cgpa_http)
  have c: "(\<exists>d. predict_cgpa g s = Inl (HTTPException 500 d)) \<longleftrightarrow>
         (\<exists>e. predict_body g s = Inl (Exc e))"
    using body_http by (auto simp: predict_cgpa_http)
  have d: "\<forall>e. predict_cgpa g s \<noteq> Inl (Exc e)"
    by (auto simp: predict_cgpa_def split: sum.splits exn.splits)
  from a b c d show ?thesis by blast
qed

lemma drifted_columns_encoded:
  "encoded_frame drifted_columns sample_student = encoded_frame (sample_artifacts (Fin 3)) sample_student"
  "encoded_frame drifted_width sample_student = encoded_frame (sample_artifacts (Fin 3)) sample_student"
  "encoded_frame broken_model sample_student = encoded_frame (sample_artifacts (Fin 3)) sample_student"
  by (simp_all add: encoded_frame_def drifted_columns_def drifted_width_def broken_model_def)

lemma broken_model_fails:
  "predict_body broken_model sample_student = Inl (Exc (OtherError ''inference failed''))"
  by (simp add: predict_body_def model_score_def drifted_columns_encoded sample_encoded)
     (simp add: broken_model_def sample_artifacts_def select_columns_def List.map_filter_def
      lift_exc_def scaler_transform_def sample_scaler_def sample_features_def
      model_predict_def failing_model_def)

lemma sample_encoded_frame:
  "encoded_frame (sample_artifacts score) sample_student = Inr sample_frame"
  "encoded_frame drifted_columns sample_student = Inr sample_frame"
  "encoded_frame drifted_width sample_student = Inr sample_frame"
  "encoded_frame broken_model sample_student = Inr sample_frame"
  by (simp_all add: drifted_columns_encoded sample_encoded sample_frame_def)

lemma drifted_columns_stage:
  "select_columns (feature_names drifted_columns) sample_frame =
     Inl (KeyError (not_in_index [''Height'']))"
  by (simp add: sample_frame_def select_columns_def drifted_columns_def sample_artifacts_def)

lemma drifted_width_stage:
  "select_columns (feature_names drifted_width) sample_frame = Inr [(''Age'', PyInt 21)]"
  "scaler_transform (scaler drifted_width) [(''Age'', PyInt 21)] =
     Inl (ValueError ''X has a different number of features than StandardScaler expects'')"
  by (simp_all add: sample_frame_def select_columns_def drifted_width_def sample_artifacts_def
      List.map_filter_def scaler_transform_def sample_scaler_def)

lemma broken_model_stage:
  "select_columns (feature_names broken_model) sample_frame =
     Inr [(''Choose your gender'', PyInt 1), (''Age'', PyInt 21),
          (''What is your course?'', PyInt 1), (''Your current year of Study'', PyInt 1)]"
  "scaler_transform (scaler broken_model)
     [(''Choose your gender'', PyInt 1), (''Age'', PyInt 21),
      (''What is your course?'', PyInt 1), (''Your current year of Study'', PyInt 1)] =
     Inr [Fin 1, Fin 21, Fin 1, Fin 1]"
  "model_predict (model broken_model) [Fin 1, Fin 21, Fin 1, Fin 1] =
     Inl (OtherError ''inference failed'')"
  by (simp_all add: sample_frame_def select_columns_def broken_model_def sample_artifacts_def
      List.map_filter_def scaler_transform_def sample_scaler_def sample_features_def
      model_predict_def failing_model_def)

text \<open>
  The sample deployment with an unseen course answers 400; the deployment whose model
  fails raises an ordinary exception in the body and answers 500, not 400.
\<close>

theorem status_400_iff_encoder_rejects_witness:
  "(\<exists>les c v. label_encoders (sample_artifacts (Fin 3)) = Some les \<and>
       rejects les (input_data unseen_student) c v)
   \<and> (\<exists>d. predict_cgpa (sample_artifacts (Fin 3)) unseen_student = Inl (HTTPException 400 d))
   \<and> predict_body broken_model sample_student = Inl (Exc (OtherError ''inference failed''))
   \<and> (\<exists>d. predict_cgpa broken_model sample_student = Inl (HTTPException 500 d))
   \<and> \<not> (\<exists>d. predict_cgpa broken_model sample_student = Inl (HTTPException 400 d))"
proof -
  have rej: "\<exists>les c v. label_encoders (sample_artifacts (Fin 3)) = Some les \<and>
       rejects les (input_data unseen_student) c v"
    using sample_label_encoders unseen_rejects by blast
  have none: "\<not> (\<exists>les c v. label_encoders broken_model = Some les \<and>
       rejects les (input_data sample_student) c v)"
    by (simp add: broken_model_encoders sample_no_rejects)
  note unseen = status_400_iff_encoder_rejects [of "sample_artifacts (Fin 3)" unseen_student]
  note broken = status_400_iff_encoder_rejects [of broken_model sample_student]
  have a: "\<exists>d. predict_cgpa (sample_artifacts (Fin 3)) unseen_student = Inl (HTTPException 400 d)"
    using unseen [THEN conjunct1] rej by (rule iffD2)
  have b: "\<exists>d. predict_cgpa broken_model sample_student = Inl (HTTPException 500 d)"
    using broken [THEN conjunct2, THEN conjunct2, THEN conjunct1] broken_model_fails by blast
  have c: "\<not> (\<exists>d. predict_cgpa broken_model sample_student = Inl (HTTPException 400 d))"
    using broken [THEN conjunct1] none by blast
  from rej a broken_model_fails b c show ?thesis by (intro conjI)
qed

lemma model_score_raises: "model_score g s = Inl (Exc e) \<longleftrightarrow> stage_raises g s e"
  unfolding stage_raises_def model_score_def lift_exc_def
  by (auto split: sum.splits)

lemma predict_body_raises: "predict_body g s = Inl (Exc e) \<longleftrightarrow> stage_raises g s e"
  by (simp add: predict_body_def model_score_raises [symmetric] split: sum.splits)

lemma stage_raises_500:
  assumes "stage_raises g s e"
  shows "predict_cgpa g s = Inl (HTTPException 500 (''Prediction error: '' @ exc_str e))"
  using assms by (simp add: predict_cgpa_def predict_body_raises [symmetric])

lemma answered_500_raises:
  assumes "predict_cgpa g s = Inl (HTTPException 500 d)"
  shows "\<exists>e. stage_raises g s e \<and> d = ''Prediction error: '' @ exc_str e"
proof -
  from assms consider "predict_body g s = Inl (HTTPException 500 d)"
    | e where "predict_body g s = Inl (Exc e)" "d = ''Prediction error: '' @ exc_str e"
    by (auto simp: predict_cgpa_http)
  then show ?thesis
  proof cases
    case 1
    then have "encoded_frame g s = Inl (HTTPException 500 d)"
      by (simp add: predict_body_http)
    then have "(500::nat) = 400"
      using encoded_frame_http [of g s 500 d] by blast
    then show ?thesis by simp
  next
    case 2
    then show ?thesis by (auto simp: predict_body_raises)
  qed
qed

lemma missing_column_raises:
  assumes "List.member ns n" "map_of df n = None"
  shows "\<exists>e. select_columns (Some ns) df = Inl e"
proof -
  from assms have "filter (\<lambda>n. map_of df n = None) ns \<noteq> []"
    by (auto simp: filter_empty_conv)
  then show ?thesis
    by (simp add: select_columns_def Let_def)
qed

text \<open>
  Claim C8, as amended. When a stage of the pipeline other than an encoder's rejection
  raises an exception \<open>e\<close>, the handler answers 500 with the detail \<open>Prediction error: \<close>
  followed by the text of \<open>e\<close>, and returns no prediction; it answers 500 in no other
  case. In particular it does so when the encoder mapping is \<^verbatim>\<open>None\<close>, when a feature name
  is not a column of the frame, and when the model returns an empty prediction.
\<close>

theorem pipeline_failure_is_500:
  "(stage_raises g s e \<longrightarrow>
      predict_cgpa g s = Inl (HTTPException 500 (''Prediction error: '' @ exc_str e)))
   \<and> (\<forall>d. predict_cgpa g s = Inl (HTTPException 500 d) \<longrightarrow>
         (\<exists>e'. stage_raises g s e' \<and> d = ''Prediction error: '' @ exc_str e'))
   \<and> (label_encoders g = None \<longrightarrow>
         predict_cgpa g s =
           Inl (HTTPException 500
             (''Prediction error: '' @ exc_str (none_has_no_attribute ''keys''))))
   \<and> (\<forall>df ns n. encoded_frame g s = Inr df \<and> feature_names g = Some ns \<and>
           List.member ns n \<and> map_of df n = None \<longrightarrow>
         (\<exists>e'. select_columns (Some ns) df = Inl e' \<and>
            predict_cgpa g s = Inl (HTTPException 500 (''Prediction error: '' @ exc_str e'))))
   \<and> (\<forall>df ordered x. encoded_frame g s = Inr df \<and>
           select_columns (feature_names g) df = Inr ordered \<and>
           scaler_transform (scaler g) ordered = Inr x \<and> model_predict (model g) x = Inr [] \<longrightarrow>
         predict_cgpa g s =
           Inl (HTTPException 500
             ''Prediction error: index 0 is out of bounds for axis 0 with size 0''))"
proof -
  have a: "stage_raises g s e \<longrightarrow>
      predict_cgpa g s = Inl (HTTPException 500 (''Prediction error: '' @ exc_str e))"
    using stage_raises_500 by blast
  have b: "\<forall>d. predict_cgpa g s = Inl (HTTPException 500 d) \<longrightarrow>
         (\<exists>e'. stage_raises g s e' \<and> d = ''Prediction error: '' @ exc_str e')"
    using answered_500_raises by blast
  have c: "label_encoders g = None \<longrightarrow>
         predict_cgpa g s =
           Inl (HTTPException 500
             (''Prediction error: '' @ exc_str (none_has_no_attribute ''keys'')))"
  proof
    assume "label_encoders g = None"
    then have "stage_raises g s (none_has_no_attribute ''keys'')"
      by (simp add: stage_raises_def encoded_frame_no_encoders)
    then show "predict_cgpa g s =
           Inl (HTTPException 500
             (''Prediction error: '' @ exc_str (none_has_no_attribute ''keys'')))"
      by (rule stage_raises_500)
  qed
  have d: "\<exists>e'. select_columns (Some ns) df = Inl e' \<and>
            predict_cgpa g s = Inl (HTTPException 500 (''Prediction error: '' @ exc_str e'))"
    if "encoded_frame g s = Inr df" "feature_names g = Some ns" "List.member ns n"
      "map_of df n = None" for df ns n
  proof -
    from missing_column_raises [OF that(3,4)]
    obtain e' where e': "select_columns (Some ns) df = Inl e'" ..
    with that(1,2) have "stage_raises g s e'"
      by (auto simp: stage_raises_def)
    with e' show ?thesis
      using stage_raises_500 by blast
  qed
  have e: "predict_cgpa g s =
           Inl (HTTPException 500
             ''Prediction error: index 0 is out of bounds for axis 0 with size 0'')"
    if "encoded_frame g s = Inr df" "select_columns (feature_names g) df = Inr ordered"
      "scaler_transform (scaler g) ordered = Inr x" "model_predict (model g) x = Inr []"
    for df ordered x
  proof -
    have "first_prediction [] = Inl (IndexError ''index 0 is out of bounds for axis 0 with size 0'')"
      by (simp add: first_prediction_def)
    with that have "stage_raises g s (IndexError ''index 0 is out of bounds for axis 0 with size 0'')"
      unfolding stage_raises_def by blast
    from stage_raises_500 [OF this] show ?thesis by simp
  qed
  from a b c d e show ?thesis by blast
qed

lemma round_half_even_300: "round_half_even 300 = 300"
  by code_simp

lemma more_encoded_frames:
  "encoded_frame empty_prediction sample_student = Inr sample_frame"
  "encoded_frame reordered_columns sample_student = Inr sample_frame"
  using sample_encoded_frame(1) [of "Fin 3"]
  by (simp_all add: encoded_frame_def empty_prediction_def reordered_columns_def
      sample_artifacts_def)

lemma empty_prediction_stage:
  "select_columns (feature_names empty_prediction) sample_frame =
     Inr [(''Choose your gender'', PyInt 1), (''Age'', PyInt 21),
          (''What is your course?'', PyInt 1), (''Your current year of Study'', PyInt 1)]"
  "scaler_transform (scaler empty_prediction)
     [(''Choose your gender'', PyInt 1), (''Age'', PyInt 21),
      (''What is your course?'', PyInt 1), (''Your current year of Study'', PyInt 1)] =
     Inr [Fin 1, Fin 21, Fin 1, Fin 1]"
  "model_predict (model empty_prediction) [Fin 1, Fin 21, Fin 1, Fin 1] = Inr []"
  by (simp_all add: sample_frame_def select_columns_def empty_prediction_def sample_artifacts_def
      List.map_filter_def scaler_transform_def sample_scaler_def sample_features_def
      model_predict_def)

lemma reordered_columns_score:
  "model_score reordered_columns sample_student = Inr (Fin 3)"
  by (simp add: model_score_def more_encoded_frames)
     (simp add: reordered_columns_def sample_artifacts_def sample_frame_def select_columns_def
      List.map_filter_def lift_exc_def scaler_transform_def sample_scaler_def
      model_predict_def constant_model_def first_prediction_def)

lemma drifted_width_raises:
  "stage_raises drifted_width sample_student
     (ValueError ''X has a different number of features than StandardScaler expects'')"
  unfolding stage_raises_def
  using sample_encoded_frame(3) drifted_width_stage by blast

lemma broken_model_raises:
  "stage_raises broken_model sample_student (OtherError ''inference failed'')"
  unfolding stage_raises_def
  using sample_encoded_frame(4) broken_model_stage by blast

lemma height_is_no_column: "map_of sample_frame ''Height'' = None"
  by (simp add: sample_frame_def)

text \<open>
  Five deployments: a feature list narrower than the scaler expects, a model that
  raises, an encoder mapping that is \<^verbatim>\<open>None\<close>, a feature name that is no column, and a
  model that returns no prediction. Each answers 500 with the text of its own exception.
\<close>

theorem pipeline_failure_is_500_witness:
  "stage_raises drifted_width sample_student
     (ValueError ''X has a different number of features than StandardScaler expects'')
   \<and> predict_cgpa drifted_width sample_student =
       Inl (HTTPException 500
         ''Prediction error: X has a different number of features than StandardScaler expects'')
   \<and> stage_raises broken_model sample_student (OtherError ''inference failed'')
   \<and> predict_cgpa broken_model sample_student =
       Inl (HTTPException 500 ''Prediction error: inference failed'')
   \<and> predict_cgpa missing_encoders sample_student =
       Inl (HTTPException 500 (''Prediction error: '' @ exc_str (none_has_no_attribute ''keys'')))
   \<and> predict_cgpa drifted_columns sample_student =
       Inl (HTTPException 500 (''Prediction error: '' @ not_in_index [''Height'']))
   \<and> predict_cgpa empty_prediction sample_student =
       Inl (HTTPException 500
         ''Prediction error: index 0 is out of bounds for axis 0 with size 0'')"
proof -
  note width = pipeline_failure_is_500 [of drifted_width sample_student
      "ValueError ''X has a different number of features than StandardScaler expects''",
      THEN conjunct1, rule_format, OF drifted_width_raises]
  note broken = pipeline_failure_is_500 [of broken_model sample_student
      "OtherError ''inference failed''", THEN conjunct1, rule_format, OF broken_model_raises]
  have "label_encoders missing_encoders = None"
    by (simp add: missing_encoders_def)
  note missing = pipeline_failure_is_500 [of missing_encoders sample_student undefined,
      THEN conjunct2, THEN conjunct2, THEN conjunct1, rule_format, OF this]
  have "encoded_frame drifted_columns sample_student = Inr sample_frame \<and>
      feature_names drifted_columns = Some [''Age'', ''Height''] \<and>
      List.member [''Age'', ''Height''] ''Height'' \<and> map_of sample_frame ''Height'' = None"
    using sample_encoded_frame(2) height_is_no_column
    by (simp add: drifted_columns_def [THEN arg_cong, of feature_names])
  note pipeline_failure_is_500 [of drifted_columns sample_student undefined,
      THEN conjunct2, THEN conjunct2, THEN conjunct2, THEN conjunct1, rule_format, OF this]
  then have columns: "predict_cgpa drifted_columns sample_student =
      Inl (HTTPException 500 (''Prediction error: '' @ not_in_index [''Height'']))"
    using drifted_columns_stage by (auto simp: drifted_columns_def)
  have "encoded_frame empty_prediction sample_student = Inr sample_frame \<and>
      select_columns (feature_names empty_prediction) sample_frame =
        Inr [(''Choose your gender'', PyInt 1), (''Age'', PyInt 21),
             (''What is your course?'', PyInt 1), (''Your current year of Study'', PyInt 1)] \<and>
      scaler_transform (scaler empty_prediction)
        [(''Choose your gender'', PyInt 1), (''Age'', PyInt 21),
         (''What is your course?'', PyInt 1), (''Your current year of Study'', PyInt 1)] =
        Inr [Fin 1, Fin 21, Fin 1, Fin 1] \<and>
      model_predict (model empty_prediction) [Fin 1, Fin 21, Fin 1, Fin 1] = Inr []"
    by (simp add: more_encoded_frames empty_prediction_stage)
  note empty = pipeline_failure_is_500 [of empty_prediction sample_student undefined,
      THEN conjunct2, THEN conjunct2, THEN conjunct2, THEN conjunct2, rule_format, OF this]
  from width broken missing columns empty drifted_width_raises broken_model_raises
  show ?thesis by simp
qed

text \<open>
  Claim C8 as stated fails on two counts. A mismatch that makes no stage raise is not
  noticed: with the feature names in another order than the scaler was fitted on, the
  handler answers with a prediction. And the detail is not one generic message: it carries
  the text of the exception, so two failures give two details.
\<close>

theorem mismatch_undetected_and_detail_varies:
  "feature_names reordered_columns \<noteq> feature_names (sample_artifacts (Fin 3))
   \<and> predict_cgpa reordered_columns sample_student =
       Inr \<lparr>predicted_cgpa = Fin 3, cgpa_range = ''Good (3.00 - 3.49)'',
            message = ''Student is performing well academically.''\<rparr>
   \<and> predict_cgpa drifted_width sample_student =
       Inl (HTTPException 500
         ''Prediction error: X has a different number of features than StandardScaler expects'')
   \<and> predict_cgpa broken_model sample_student =
       Inl (HTTPException 500 ''Prediction error: inference failed'')"
proof -
  have order: "feature_names reordered_columns \<noteq> feature_names (sample_artifacts (Fin 3))"
    by (simp add: reordered_columns_def sample_artifacts_def sample_features_def)
  have ok: "predict_cgpa reordered_columns sample_student = Inr (postprocess (Fin 3))"
    by (simp add: predict_cgpa_def predict_body_def reordered_columns_score)
  from order ok stage_raises_500 [OF drifted_width_raises] stage_raises_500 [OF broken_model_raises]
  show ?thesis
    by (simp add: postprocess_def py_max_def py_min_def fl_gt_def interpret_cgpa_def
        round_half_even_300)
qed

section \<open>The process state across requests\<close>

lemma serve_state: "snd (serve g r) = g"
  by (cases r) simp_all

lemma serve_all_state: "snd (serve_all g rs) = g"
  by (induction rs) (auto simp: Let_def split: prod.splits dest: arg_cong [where f = snd] simp: serve_state)

lemma serve_all_Cons:
  "serve_all g (r # zs) = (fst (serve g r) # fst (serve_all g zs), g)"
  using serve_state [of g r] serve_all_state [of g zs]
  by (cases "serve g r"; cases "serve_all g zs") (simp add: Let_def)

subsection \<open>The artifacts as objects\<close>























section \<open>Startup and the health route\<close>

lemma health_in_responses:
  "List.member (fst (serve_all g rs)) (Health h) \<Longrightarrow> h = health_check g"
proof (induction rs)
  case Nil
  then show ?case by simp
next
  case (Cons r rs)
  then show ?case
    by (cases r)
      (auto simp: serve_all_Cons root_def post_predict_def simp del: serve_all.simps
        split: sum.splits exn.splits)
qed

lemma startup_cases:
  "startup fs = Inr g \<longleftrightarrow>
     best_model_pkl fs = Inr (model g) \<and> scaler_pkl fs = Inr (scaler g) \<and>
     label_encoders_pkl fs = Inr (label_encoders g) \<and> feature_names_pkl fs = Inr (feature_names g)"
  by (cases g) (auto simp: startup_def split: sum.splits)

text \<open>
  Claim C6, as amended. After a startup without exception the health route reports
  \<open>healthy\<close> and three booleans: whether the model, the scaler and the encoder mapping were
  loaded as an object other than \<^verbatim>\<open>None\<close>. The feature names are not reported: the
  response does not depend on them.
\<close>

theorem health_reports_three_artifacts:
  assumes "startup fs = Inr g"
  shows "status (health_check g) = ''healthy''
    \<and> model_loaded (health_check g) = (best_model_pkl fs \<noteq> Inr None)
    \<and> scaler_loaded (health_check g) = (scaler_pkl fs \<noteq> Inr None)
    \<and> encoders_loaded (health_check g) = (label_encoders_pkl fs \<noteq> Inr None)
    \<and> (\<forall>ns. health_check (g\<lparr>feature_names := ns\<rparr>) = health_check g)"
  using assms by (auto simp: startup_cases health_check_def)

lemma sample_startup: "startup sample_pickles = Inr (sample_artifacts (Fin 3))"
  by (simp add: startup_def sample_pickles_def sample_artifacts_def)

text \<open>
  The sample deployment starts and reports three true booleans.
\<close>

theorem health_reports_three_artifacts_witness:
  "startup sample_pickles = Inr (sample_artifacts (Fin 3))
   \<and> health_check (sample_artifacts (Fin 3)) =
       \<lparr>status = ''healthy'', model_loaded = True, scaler_loaded = True, encoders_loaded = True\<rparr>"
  using health_reports_three_artifacts [OF sample_startup]
  by (simp add: sample_startup health_check_def sample_artifacts_def)

text \<open>
  Claim C6 as stated fails: the health response is the same whether the feature names
  were loaded as a list or as \<^verbatim>\<open>None\<close>.
\<close>

theorem health_omits_feature_names:
  "run sample_pickles [GetHealth] = run (sample_pickles\<lparr>feature_names_pkl := Inr None\<rparr>) [GetHealth]
   \<and> feature_names_pkl sample_pickles \<noteq> Inr None
   \<and> (\<exists>resps. run sample_pickles [GetHealth] = Inr resps)"
  by (simp add: run_def startup_def sample_pickles_def health_check_def Let_def)

text \<open>
  Claim C9 as stated fails: when the model file holds a pickled \<^verbatim>\<open>None\<close>, no load
  raises, the process serves, and the health route reports \<open>model_loaded\<close> false.
\<close>

theorem health_false_when_none_loaded:
  "run (sample_pickles\<lparr>best_model_pkl := Inr None\<rparr>) [GetHealth] =
     Inr [Health \<lparr>status = ''healthy'', model_loaded = False, scaler_loaded = True,
                  encoders_loaded = True\<rparr>]"
  by (simp add: run_def startup_def sample_pickles_def health_check_def Let_def)

text \<open>
  Claim C9, as amended. When the process serves and none of the model, scaler and encoder
  files held \<^verbatim>\<open>None\<close>, every health response reports all three booleans true; and when
  any of the four loads raises, the process serves nothing.
\<close>

theorem serving_health_all_true:
  "(run fs rs = Inr resps \<and> List.member resps (Health h) \<and>
      best_model_pkl fs \<noteq> Inr None \<and> scaler_pkl fs \<noteq> Inr None \<and>
      label_encoders_pkl fs \<noteq> Inr None
      \<longrightarrow> model_loaded h \<and> scaler_loaded h \<and> encoders_loaded h)
   \<and> ((\<exists>e. best_model_pkl fs = Inl e \<or> scaler_pkl fs = Inl e \<or>
            label_encoders_pkl fs = Inl e \<or> feature_names_pkl fs = Inl e)
      \<longrightarrow> (\<exists>e. run fs rs = Inl e))"
proof -
  have a: "model_loaded h \<and> scaler_loaded h \<and> encoders_loaded h"
    if "run fs rs = Inr resps" "List.member resps (Health h)"
      "best_model_pkl fs \<noteq> Inr None" "scaler_pkl fs \<noteq> Inr None"
      "label_encoders_pkl fs \<noteq> Inr None"
  proof -
    from that(1) obtain g where g: "startup fs = Inr g" and resps: "resps = fst (serve_all g rs)"
      by (auto simp: run_def split: sum.splits)
    from that(2) have "h = health_check g"
      unfolding resps by (rule health_in_responses)
    with g that(3-5) show ?thesis
      by (auto simp: startup_cases health_check_def)
  qed
  have b: "\<exists>e. run fs rs = Inl e"
    if "\<exists>e. best_model_pkl fs = Inl e \<or> scaler_pkl fs = Inl e \<or>
            label_encoders_pkl fs = Inl e \<or> feature_names_pkl fs = Inl e"
    using that by (auto simp: run_def startup_def split: sum.splits)
  from a b show ?thesis by blast
qed

text \<open>
  The sample deployment serves and reports three true booleans; with a scaler file that
  cannot be loaded the process ends with that exception.
\<close>

theorem serving_health_all_true_witness:
  "run sample_pickles [GetRoot, GetHealth] =
       Inr [root, Health \<lparr>status = ''healthy'', model_loaded = True, scaler_loaded = True,
                          encoders_loaded = True\<rparr>]
   \<and> run (sample_pickles\<lparr>scaler_pkl := Inl (OtherError ''No such file: scaler.pkl'')\<rparr>) [GetHealth] =
       Inl (OtherError ''No such file: scaler.pkl'')"
  using serving_health_all_true [of sample_pickles "[GetRoot, GetHealth]"
      "[root, Health \<lparr>status = ''healthy'', model_loaded = True, scaler_loaded = True,
                          encoders_loaded = True\<rparr>]"
      "\<lparr>status = ''healthy'', model_loaded = True, scaler_loaded = True,
                          encoders_loaded = True\<rparr>"]
    serving_health_all_true [of "sample_pickles\<lparr>scaler_pkl := Inl (OtherError ''No such file: scaler.pkl'')\<rparr>" "[GetHealth]"]
  by (simp add: run_def startup_def sample_pickles_def health_check_def Let_def)

end
